theory Spec2Isabelle
  imports Main "HOL-Library.Char_ord" "HOL-Library.List_Lexorder"
begin

section \<open>Values the dispatcher handles\<close>

text \<open>
  Faults of the interpreter that the dispatch code of \<^verbatim>\<open>chii.py\<close> itself can raise.
  Each carries what the Python exception names: the unbound global, the missing key, the
  message of the exception a module's source raised while it was executed.
\<close>

datatype error =
    NameError string
  | KeyError string
  | IndexError
  | ValueError
  | TypeError
  | OSError string
  | ImportFault string

text \<open>
  What calling a handler body does: it returns \<^verbatim>\<open>None\<close> or a string, or it raises an
  \<^verbatim>\<open>Exception\<close> \<^verbatim>\<open>e\<close>, of which the dispatcher only uses \<^verbatim>\<open>'%s' % e\<close>. The bodies of
  the plugins are not part of the dispatcher: a body is a function of its positional
  arguments.
\<close>

datatype outcome = Returned "string option" | Raised string

text \<open>
  The decorators \<^verbatim>\<open>command\<close>, \<^verbatim>\<open>event\<close> and \<^verbatim>\<open>task\<close> wrap a function and set
  \<^verbatim>\<open>__name__\<close> and the attributes of its registry: \<^verbatim>\<open>_command_names\<close> and
  \<^verbatim>\<open>_restrict\<close>, \<^verbatim>\<open>_event_type\<close>, \<^verbatim>\<open>_task_interval\<close>.
\<close>

record handler =
  fname :: string
  body :: "string list \<Rightarrow> outcome"

record command = handler +
  command_names :: "string list"
  restrict :: "string option"

record event = handler +
  event_type :: string

record task = handler +
  task_interval :: nat

text \<open>The attribute \<^verbatim>\<open>_registry\<close> of a wrapped function selects one of three tables.\<close>

datatype tagged = Command command | Event event | Task task

text \<open>
  What the dispatcher does to the outside: calls of handler bodies, \<^verbatim>\<open>self.msg\<close>,
  \<^verbatim>\<open>self.logger.log\<close>, lines printed to the process output, the three summary lines at
  the end of a reload (named by their table, their text left out), and
  \<^verbatim>\<open>traceback.print_exc()\<close>.
\<close>

datatype effect =
    Call string "string list"
  | Msg string string
  | Log string
  | Print string
  | Listing string
  | Traceback

section \<open>Strings\<close>

text \<open>\<^verbatim>\<open>str.split()\<close> without arguments cuts at runs of whitespace and drops empty pieces.\<close>

definition is_space :: "char \<Rightarrow> bool" where
  "is_space c = (c \<in> set [CHR '' '', CHR 0x09, CHR 0x0A, CHR 0x0B, CHR 0x0C, CHR 0x0D])"

fun split_ws :: "string \<Rightarrow> string list" where
  "split_ws [] = []"
| "split_ws (c # cs) =
     (if is_space c then split_ws cs
      else if cs = [] \<or> is_space (hd cs) then [c] # split_ws cs
      else (case split_ws cs of [] \<Rightarrow> [[c]] | t # ts \<Rightarrow> (c # t) # ts))"

text \<open>\<^verbatim>\<open>str.split(sep)\<close> cuts at every occurrence of the separator and keeps empty pieces.\<close>

fun split_on :: "char \<Rightarrow> string \<Rightarrow> string list" where
  "split_on sep [] = [[]]"
| "split_on sep (c # cs) =
     (if c = sep then [] # split_on sep cs
      else (case split_on sep cs of [] \<Rightarrow> [[c]] | t # ts \<Rightarrow> (c # t) # ts))"

text \<open>\<^verbatim>\<open>str.lower()\<close> of a byte string maps the letters A to Z and nothing else.\<close>

definition lower_char :: "char \<Rightarrow> char" where
  "lower_char c =
     (case map_of (zip ''ABCDEFGHIJKLMNOPQRSTUVWXYZ'' ''abcdefghijklmnopqrstuvwxyz'') c of
        Some l \<Rightarrow> l
      | None \<Rightarrow> c)"

definition lower :: "string \<Rightarrow> string" where
  "lower s = map lower_char s"

definition startswith :: "string \<Rightarrow> string \<Rightarrow> bool" where
  "startswith s p = (take (length p) s = p)"

definition endswith :: "string \<Rightarrow> string \<Rightarrow> bool" where
  "endswith s p = (length p \<le> length s \<and> drop (length s - length p) s = p)"

text \<open>\<^verbatim>\<open>f.replace('.py', '')\<close> removes every occurrence of \<^verbatim>\<open>.py\<close>, from the left.\<close>

fun remove_dot_py :: "string \<Rightarrow> string" where
  "remove_dot_py (a # b # c # rest) =
     (if [a, b, c] = ''.py'' then remove_dot_py rest else a # remove_dot_py (b # c # rest))"
| "remove_dot_py s = s"

text \<open>\<^verbatim>\<open>os.path.split(path)[-1]\<close>: what follows the last slash.\<close>

definition basename :: "string \<Rightarrow> string" where
  "basename p = rev (takeWhile (\<lambda>c. c \<noteq> CHR ''/'') (rev p))"

text \<open>Truth value of \<^verbatim>\<open>None\<close>, \<^verbatim>\<open>False\<close> (both \<open>None\<close> here) or a string.\<close>

fun truthy :: "string option \<Rightarrow> bool" where
  "truthy None = False"
| "truthy (Some s) = (s \<noteq> [])"

section \<open>The bot\<close>

text \<open>
  The three registries of class \<^verbatim>\<open>Chii\<close> and what the dispatcher reads of the
  configuration. \<^verbatim>\<open>commands\<close> is a dict, \<^verbatim>\<open>events\<close> a \<^verbatim>\<open>defaultdict(list)\<close>,
  \<^verbatim>\<open>tasks\<close> a list. \<^verbatim>\<open>user_roles\<close>, \<^verbatim>\<open>cmd_prefix\<close> and \<^verbatim>\<open>modules\<close> stand for
  \<^verbatim>\<open>self.config[...]\<close> of these keys.
\<close>

type_synonym roles = "string \<rightharpoonup> string list"

record chii =
  commands :: "string \<rightharpoonup> command"
  events :: "string \<rightharpoonup> event list"
  tasks :: "task list"
  nickname :: string
  user_roles :: roles
  cmd_prefix :: string
  modules :: "string list"

text \<open>
  The two ways to read a \<^verbatim>\<open>defaultdict(list)\<close>: \<^verbatim>\<open>d.get(k, None)\<close> never changes the
  dict; \<^verbatim>\<open>d[k]\<close> stores an empty list under a key that is missing and returns it.
\<close>

definition dd_get :: "(string \<rightharpoonup> event list) \<Rightarrow> string \<Rightarrow> event list option" where
  "dd_get d k = d k"

definition dd_getitem :: "(string \<rightharpoonup> event list) \<Rightarrow> string \<Rightarrow> event list \<times> (string \<rightharpoonup> event list)" where
  "dd_getitem d k = (case d k of Some v \<Rightarrow> (v, d) | None \<Rightarrow> ([], d(k \<mapsto> [])))"

section \<open>Permission check\<close>

text \<open>
  \<^verbatim>\<open>check_permission(self, restrict_to, nick, host)\<close>. The role table is
  \<^verbatim>\<open>self.config['user_roles']\<close>, a dict from role name to the list of its members.
  The loop runs over the tuple \<^verbatim>\<open>(nick, host, '!'.join((nick, host)))\<close> and indexes the role
  table anew in every round; indexing a dict with a key it does not hold raises KeyError.
\<close>

fun check_members :: "roles \<Rightarrow> string \<Rightarrow> string list \<Rightarrow> error + bool" where
  "check_members rt restrict_to [] = Inr False"
| "check_members rt restrict_to (member # rest) =
     (case rt restrict_to of
        None \<Rightarrow> Inl (KeyError restrict_to)
      | Some members \<Rightarrow>
          if member \<in> set members then Inr True
          else check_members rt restrict_to rest)"

definition check_permission :: "roles \<Rightarrow> string option \<Rightarrow> string \<Rightarrow> string \<Rightarrow> error + bool" where
  "check_permission rt restrict_to nick host =
     (case restrict_to of
        None \<Rightarrow> Inr True
      | Some role \<Rightarrow> check_members rt role [nick, host, nick @ ''!'' @ host])"

text \<open>The role table of \<^verbatim>\<open>Config.defaults\<close>.\<close>

definition default_user_roles :: roles where
  "default_user_roles = [''admins'' \<mapsto> [''zk!is@whatit.is'']]"

section \<open>Module globals\<close>

text \<open>
  \<^verbatim>\<open>_handle_command\<close> calls \<^verbatim>\<open>check_permission(command._restrict, nick, host)\<close> by its
  bare name, not as \<^verbatim>\<open>self.check_permission\<close>. Inside a method a bare name is looked up
  in the function's locals, then in the globals of the module, then in the builtins; the
  class body is no scope for it. A name bound nowhere raises NameError when it is read,
  before any argument is evaluated.

  The globals of a module are a dict from names to values. Of a value the dispatcher needs
  to know only whether it can be called as a permission check.
\<close>

datatype pyval = Callable "string option \<Rightarrow> string \<Rightarrow> string \<Rightarrow> error + bool" | Other

type_synonym globals = "string \<rightharpoonup> pyval"

text \<open>
  Every name that \<^verbatim>\<open>chii.py\<close> binds at module level (imports, assignments, \<^verbatim>\<open>def\<close> and
  \<^verbatim>\<open>class\<close> statements), in source order. \<^verbatim>\<open>check_permission\<close> is not among them and is
  no builtin: it is bound only as an attribute of class \<^verbatim>\<open>Chii\<close>.
\<close>

definition chii_globals :: globals where
  "chii_globals = map_of
     [(''argparse'', Other), (''new'', Other), (''os'', Other), (''sys'', Other),
      (''time'', Other), (''traceback'', Other), (''defaultdict'', Other), (''irc'', Other),
      (''reactor'', Other), (''protocol'', Other), (''defer'', Other), (''log'', Other),
      (''yaml'', Other), (''CONFIG_FILE'', Other), (''Config'', Other), (''config'', Other),
      (''command'', Other), (''event'', Other), (''task'', Other), (''Logger'', Other),
      (''Chii'', Other), (''ChiiBot'', Other), (''ChiiFactory'', Other)]"

section \<open>Dispatch\<close>

text \<open>
  The \<^verbatim>\<open>try\<close> block that both dispatchers wrap around a handler call: an
  \<^verbatim>\<open>Exception\<close> becomes the response \<^verbatim>\<open>'ur shit am fuked! %s' % e\<close> and its traceback is
  printed.
\<close>

definition diagnostic :: "string \<Rightarrow> string" where
  "diagnostic e = ''ur shit am fuked! '' @ e"

definition call_handler :: "'a handler_scheme \<Rightarrow> string list \<Rightarrow> string option \<times> effect list" where
  "call_handler h args =
     (case body h args of
        Returned response \<Rightarrow> (response, [Call (fname h) args])
      | Raised e \<Rightarrow> (Some (diagnostic e), [Call (fname h) args, Traceback]))"

text \<open>\<^verbatim>\<open>self.logger.log("<%s> %s" % (self.nickname, response))\<close>\<close>

definition log_line :: "string \<Rightarrow> string \<Rightarrow> effect" where
  "log_line who text = Log (''<'' @ who @ ''> '' @ text)"

text \<open>
  \<^verbatim>\<open>_handle_event(self, event_type=None, respond=False, *args)\<close>. \<open>respond\<close> is
  \<^verbatim>\<open>False\<close> (here \<open>None\<close>) or the target of replies.
\<close>

definition respond_to :: "chii \<Rightarrow> string option \<Rightarrow> string option \<Rightarrow> effect list" where
  "respond_to self respond response =
     (case respond of
        None \<Rightarrow> []
      | Some target \<Rightarrow>
          (case response of
             None \<Rightarrow> []
           | Some text \<Rightarrow>
               if truthy respond \<and> truthy response
               then [Msg target text, log_line (nickname self) text]
               else []))"

fun event_loop :: "chii \<Rightarrow> string option \<Rightarrow> string list \<Rightarrow> event list \<Rightarrow> effect list" where
  "event_loop self respond args [] = []"
| "event_loop self respond args (ev # evs) =
     (let (response, called) = call_handler ev args
      in called @ respond_to self respond response @ event_loop self respond args evs)"

definition handle_event :: "chii \<Rightarrow> string \<Rightarrow> string option \<Rightarrow> string list \<Rightarrow> chii \<times> effect list" where
  "handle_event self etype respond args =
     (case dd_get (events self) etype of
        None \<Rightarrow> (self, [])
      | Some evs \<Rightarrow>
          (case evs of
             [] \<Rightarrow> (self, [])
           | _ \<Rightarrow> (self, event_loop self respond args evs)))"

text \<open>
  The head of \<^verbatim>\<open>_handle_command\<close>: \<^verbatim>\<open>msg = msg.split()\<close>, then
  \<^verbatim>\<open>command, args = msg[0][1:].lower(), []\<close> and, further down,
  \<^verbatim>\<open>if len(msg) > 1: args = msg[1:]\<close>. \<^verbatim>\<open>msg[0]\<close> of an empty list raises IndexError.
\<close>

definition parse_command :: "string \<Rightarrow> error + string \<times> string list" where
  "parse_command msg =
     (case split_ws msg of
        [] \<Rightarrow> Inl IndexError
      | tok # toks \<Rightarrow>
          Inr (lower (drop 1 tok), if length (tok # toks) > 1 then toks else []))"

text \<open>The reply of \<^verbatim>\<open>_handle_command\<close>: to the sender when the target is the bot itself.\<close>

definition reply :: "chii \<Rightarrow> string \<Rightarrow> string \<Rightarrow> string option \<Rightarrow> effect list" where
  "reply self nick channel response =
     (case response of
        None \<Rightarrow> []
      | Some text \<Rightarrow>
          if truthy response
          then [if channel = nickname self then Msg nick text else Msg channel text,
                log_line (nickname self) text]
          else [])"

text \<open>
  \<^verbatim>\<open>_handle_command(self, nick, host, channel, msg)\<close>, run with the module globals \<open>g\<close>.
  The result is the exception that leaves the method, if any, the bot afterwards and the
  effects in order.
\<close>

definition handle_command ::
  "globals \<Rightarrow> chii \<Rightarrow> string \<Rightarrow> string \<Rightarrow> string \<Rightarrow> string \<Rightarrow> error option \<times> chii \<times> effect list" where
  "handle_command g self nick host channel msg =
     (case parse_command msg of
        Inl e \<Rightarrow> (Some e, self, [])
      | Inr (key, args) \<Rightarrow>
          (case commands self key of
             None \<Rightarrow> (None, self, [])
           | Some command \<Rightarrow>
               (case g ''check_permission'' of
                  None \<Rightarrow> (Some (NameError ''check_permission''), self, [])
                | Some Other \<Rightarrow> (Some TypeError, self, [])
                | Some (Callable permitted) \<Rightarrow>
                    (case permitted (restrict command) nick host of
                       Inl e \<Rightarrow> (Some e, self, [])
                     | Inr allowed \<Rightarrow>
                         if allowed
                         then (let (response, called) = call_handler command (nick # host # channel # args)
                               in (None, self, called @ reply self nick channel response))
                         else (None, self, [])))))"

text \<open>
  \<^verbatim>\<open>ChiiBot.privmsg(self, user, channel, msg)\<close>. Unpacking \<^verbatim>\<open>user.split('!')\<close> into two
  names raises ValueError unless there are exactly two pieces. Both branches of the test of
  \<^verbatim>\<open>channel == self.nickname\<close> dispatch \<^verbatim>\<open>pubmsg\<close>.
\<close>

definition privmsg ::
  "globals \<Rightarrow> chii \<Rightarrow> string \<Rightarrow> string \<Rightarrow> string \<Rightarrow> error option \<times> chii \<times> effect list" where
  "privmsg g self user channel msg =
     (case split_on CHR ''!'' user of
        [nick, host] \<Rightarrow>
          (let logged = [Log (''<'' @ nick @ ''> '' @ msg)];
               (self1, out1) = handle_event self ''msg'' (Some channel) [nick, host, channel, msg];
               (self2, out2) = handle_event self1 ''pubmsg'' (Some channel) [nick, host, channel, msg]
           in if startswith msg (cmd_prefix self2)
              then (let (err, self3, out3) = handle_command g self2 nick host channel msg
                    in (err, self3, logged @ out1 @ out2 @ out3))
              else (None, self2, logged @ out1 @ out2))
      | _ \<Rightarrow> (Some ValueError, self, []))"

section \<open>Registry loader\<close>

text \<open>
  A module is its namespace, a dict from attribute names to values; a value is a wrapped
  function with its \<^verbatim>\<open>_registry\<close> tag, or anything else (\<open>None\<close>). \<^verbatim>\<open>dir(mod)\<close> lists
  the names sorted.
\<close>

type_synonym namespace = "(string \<times> tagged option) list"

definition dir_names :: "namespace \<Rightarrow> string list" where
  "dir_names mdl = sort (remdups (map fst mdl))"

text \<open>
  Executing the source of a module either raises (a syntax error, a failing import, any
  exception of its top level) or binds names. \<^verbatim>\<open>reload\<close> executes the source in the
  namespace the module already has: a name the source binds is overwritten, every other
  name stays.
\<close>

datatype source = Broken string | Defines namespace

definition exec_in :: "namespace \<Rightarrow> namespace \<Rightarrow> namespace" where
  "exec_in old new = new @ filter (\<lambda>(a, v). a \<notin> set (map fst new)) old"

text \<open>
  What the loader reads from outside: \<^verbatim>\<open>os.path.abspath\<close>, \<^verbatim>\<open>os.listdir\<close> (OSError for a
  path that is no directory) and the source behind a dotted module path.
  \<^verbatim>\<open>sys.modules\<close> maps the dotted paths of loaded modules to them.
\<close>

record world =
  abspath :: "string \<Rightarrow> string"
  listdir :: "string \<Rightarrow> string list option"
  source_of :: "string \<Rightarrow> source"

type_synonym sys_modules = "string \<rightharpoonup> namespace"

text \<open>
  \<^verbatim>\<open>add_command\<close>, \<^verbatim>\<open>add_event\<close>, \<^verbatim>\<open>add_task\<close> and the \<^verbatim>\<open>dispatch\<close> dict of
  \<^verbatim>\<open>_add_to_registry\<close>.
\<close>

definition collision_warning :: "string \<Rightarrow> effect" where
  "collision_warning name = Print (''Warning! commands registry already contains '' @ name)"

fun add_command_names :: "command \<Rightarrow> string list \<Rightarrow> chii \<Rightarrow> chii \<times> effect list" where
  "add_command_names method [] self = (self, [])"
| "add_command_names method (name # names) self =
     (let warned = (if name \<in> dom (commands self) then [collision_warning name] else []);
          (self', out) = add_command_names method names (self\<lparr>commands := (commands self)(name \<mapsto> method)\<rparr>)
      in (self', warned @ out))"

definition add_command :: "command \<Rightarrow> chii \<Rightarrow> chii \<times> effect list" where
  "add_command method self = add_command_names method (command_names method) self"

definition add_event :: "event \<Rightarrow> chii \<Rightarrow> chii" where
  "add_event method self =
     (let (evs, d) = dd_getitem (events self) (event_type method)
      in self\<lparr>events := d(event_type method \<mapsto> evs @ [method])\<rparr>)"

definition add_task :: "task \<Rightarrow> chii \<Rightarrow> chii" where
  "add_task method self = self\<lparr>tasks := tasks self @ [method]\<rparr>"

fun dispatch :: "tagged \<Rightarrow> chii \<Rightarrow> chii \<times> effect list" where
  "dispatch (Command method) self = add_command method self"
| "dispatch (Event method) self = (add_event method self, [])"
| "dispatch (Task method) self = (add_task method self, [])"

text \<open>
  \<^verbatim>\<open>registered\<close>: the values of the names of \<^verbatim>\<open>dir(mod)\<close> that do not start with an
  underscore and have the attribute \<^verbatim>\<open>_registry\<close>.
\<close>

definition registered_attr :: "namespace \<Rightarrow> string \<Rightarrow> tagged option" where
  "registered_attr mdl x =
     (if startswith x ''_'' then None
      else (case map_of mdl x of Some (Some method) \<Rightarrow> Some method | _ \<Rightarrow> None))"

definition registered :: "namespace \<Rightarrow> tagged list" where
  "registered mdl = List.map_filter (registered_attr mdl) (dir_names mdl)"

fun register_all :: "tagged list \<Rightarrow> chii \<Rightarrow> chii \<times> effect list" where
  "register_all [] self = (self, [])"
| "register_all (method # methods) self =
     (let (self1, out1) = dispatch method self;
          (self2, out2) = register_all methods self1
      in (self2, out1 @ out2))"

definition add_to_registry :: "namespace \<Rightarrow> chii \<Rightarrow> chii \<times> effect list" where
  "add_to_registry mdl self = register_all (registered mdl) self"

text \<open>
  \<^verbatim>\<open>_import_module(self, package, module)\<close>. For a path in \<^verbatim>\<open>sys.modules\<close> every
  attribute but \<^verbatim>\<open>__name__\<close> is deleted and \<^verbatim>\<open>reload(mod)\<close> is called, outside the
  \<^verbatim>\<open>try\<close>; the \<^verbatim>\<open>__import__\<close> that follows finds the module loaded. For a new path
  \<^verbatim>\<open>__import__\<close> executes the source inside the \<^verbatim>\<open>try\<close>, and a module whose import
  failed is not kept in \<^verbatim>\<open>sys.modules\<close>. The result is the exception that leaves the
  method, or the module, or \<^verbatim>\<open>None\<close> after the \<^verbatim>\<open>except\<close> clause.
\<close>

definition import_module ::
  "world \<Rightarrow> sys_modules \<Rightarrow> string \<Rightarrow> string \<Rightarrow> (error + namespace option) \<times> sys_modules \<times> effect list" where
  "import_module w sm package module =
     (let path = package @ ''.'' @ module
      in case sm path of
           Some mdl \<Rightarrow>
             (let cleared = filter (\<lambda>(a, v). a = ''__name__'') mdl
              in case source_of w path of
                   Broken e \<Rightarrow>
                     (Inl (ImportFault e), sm(path \<mapsto> cleared), [Print (''Reloading '' @ path)])
                 | Defines new \<Rightarrow>
                     (Inr (Some (exec_in cleared new)), sm(path \<mapsto> exec_in cleared new),
                      [Print (''Reloading '' @ path)]))
         | None \<Rightarrow>
             (case source_of w path of
                Broken e \<Rightarrow>
                  (Inr None, sm,
                   [Print (''Importing '' @ path),
                    Print (''Error importing '' @ path @ '': '' @ e), Traceback])
              | Defines new \<Rightarrow>
                  (Inr (Some new), sm(path \<mapsto> new), [Print (''Importing '' @ path)])))"

text \<open>
  The two loops of \<^verbatim>\<open>_update_registry\<close>. An exception ends both; what was registered
  before it stays registered.
\<close>

fun load_modules ::
  "world \<Rightarrow> string \<Rightarrow> string list \<Rightarrow> chii \<Rightarrow> sys_modules \<Rightarrow> error option \<times> chii \<times> sys_modules \<times> effect list" where
  "load_modules w package [] self sm = (None, self, sm, [])"
| "load_modules w package (module # rest) self sm =
     (case import_module w sm package module of
        (Inl e, sm1, out1) \<Rightarrow> (Some e, self, sm1, out1)
      | (Inr None, sm1, out1) \<Rightarrow>
          (let (err, self2, sm2, out2) = load_modules w package rest self sm1
           in (err, self2, sm2, out1 @ out2))
      | (Inr (Some mdl), sm1, out1) \<Rightarrow>
          (let (self1, out1') = add_to_registry mdl self;
               (err, self2, sm2, out2) = load_modules w package rest self1 sm1
           in (err, self2, sm2, out1 @ out1' @ out2)))"

definition module_files :: "string list \<Rightarrow> string list" where
  "module_files fs = map remove_dot_py (filter (\<lambda>f. endswith f ''.py'' \<and> f \<noteq> ''__init__.py'') fs)"

fun load_paths ::
  "world \<Rightarrow> string list \<Rightarrow> chii \<Rightarrow> sys_modules \<Rightarrow> error option \<times> chii \<times> sys_modules \<times> effect list" where
  "load_paths w [] self sm = (None, self, sm, [])"
| "load_paths w (p # ps) self sm =
     (let path = abspath w p; package = basename path
      in case listdir w path of
           None \<Rightarrow> (Some (OSError path), self, sm, [])
         | Some fs \<Rightarrow>
             (case load_modules w package (module_files fs) self sm of
                (Some e, self1, sm1, out1) \<Rightarrow> (Some e, self1, sm1, out1)
              | (None, self1, sm1, out1) \<Rightarrow>
                  (let (err, self2, sm2, out2) = load_paths w ps self1 sm1
                   in (err, self2, sm2, out1 @ out2))))"

text \<open>
  \<^verbatim>\<open>_update_registry(self)\<close>. The last of the three summary lines joins the bound methods
  of \<^verbatim>\<open>self.tasks\<close> with \<^verbatim>\<open>', '.join\<close>, which raises TypeError on anything but strings.
\<close>

definition update_registry ::
  "world \<Rightarrow> chii \<Rightarrow> sys_modules \<Rightarrow> error option \<times> chii \<times> sys_modules \<times> effect list" where
  "update_registry w self sm =
     (case modules self of
        [] \<Rightarrow> (None, self, sm, [])
      | paths \<Rightarrow>
          (case load_paths w paths (self\<lparr>commands := Map.empty, events := Map.empty, tasks := []\<rparr>) sm of
             (Some e, self1, sm1, out1) \<Rightarrow> (Some e, self1, sm1, out1)
           | (None, self1, sm1, out1) \<Rightarrow>
               (case tasks self1 of
                  [] \<Rightarrow> (None, self1, sm1, out1 @ [Listing ''commands'', Listing ''events'', Listing ''tasks''])
                | _ \<Rightarrow> (Some TypeError, self1, sm1, out1 @ [Listing ''commands'', Listing ''events'']))))"

section \<open>Reading a trace of effects\<close>

text \<open>The handler calls, the messages sent and the lines logged, each in order.\<close>

definition calls :: "effect list \<Rightarrow> (string \<times> string list) list" where
  "calls out = concat (map (\<lambda>e. case e of Call f args \<Rightarrow> [(f, args)] | _ \<Rightarrow> []) out)"

definition sent :: "effect list \<Rightarrow> (string \<times> string) list" where
  "sent out = concat (map (\<lambda>e. case e of Msg target text \<Rightarrow> [(target, text)] | _ \<Rightarrow> []) out)"

definition logged :: "effect list \<Rightarrow> string list" where
  "logged out = concat (map (\<lambda>e. case e of Log line \<Rightarrow> [line] | _ \<Rightarrow> []) out)"

section \<open>The parse the specification describes\<close>

text \<open>
  Strip the prefix, split on whitespace; the first token lower-cased is the lookup key, the
  remaining tokens are the arguments.
\<close>

definition spec_parse :: "string \<Rightarrow> string \<Rightarrow> (string \<times> string list) option" where
  "spec_parse prefix text =
     (case split_ws (drop (length prefix) text) of
        [] \<Rightarrow> None
      | tok # toks \<Rightarrow> Some (lower tok, toks))"

section \<open>Example plugins and configuration\<close>

text \<open>
  Three commands as \<^verbatim>\<open>commands/misc.py\<close> and \<^verbatim>\<open>commands/builtin.py\<close> declare them.
  \<^verbatim>\<open>sheen\<close> returns a line with the upper-cased nick. \<^verbatim>\<open>say\<close> and \<^verbatim>\<open>rehash\<close> read
  attributes the bot does not have (\<^verbatim>\<open>self.chii\<close>, \<^verbatim>\<open>self.update_registry\<close>), so their
  bodies raise AttributeError; \<^verbatim>\<open>rehash\<close> is restricted to the role \<^verbatim>\<open>admin\<close>.
\<close>

definition upper_char :: "char \<Rightarrow> char" where
  "upper_char c =
     (case map_of (zip ''abcdefghijklmnopqrstuvwxyz'' ''ABCDEFGHIJKLMNOPQRSTUVWXYZ'') c of
        Some u \<Rightarrow> u
      | None \<Rightarrow> c)"

definition sheen :: command where
  "sheen = \<lparr>fname = ''sheen'',
            body = (\<lambda>args. case args of
                       nick # host # channel # rest \<Rightarrow>
                         Returned (Some (''I GOT TIGER BLOOD IN ME '' @ map upper_char nick))
                     | _ \<Rightarrow> Raised ''sheen() takes at least 4 arguments''),
            command_names = [''sheen''], restrict = None\<rparr>"

definition say :: command where
  "say = \<lparr>fname = ''say'',
          body = (\<lambda>args. Raised ''ChiiBot instance has no attribute chii''),
          command_names = [''say''], restrict = None\<rparr>"

definition rehash :: command where
  "rehash = \<lparr>fname = ''rehash'',
             body = (\<lambda>args. Raised ''ChiiBot instance has no attribute update_registry''),
             command_names = [''rehash''], restrict = Some ''admin''\<rparr>"

text \<open>A command of another module that takes the alias \<^verbatim>\<open>say\<close> as well.\<close>

definition shout :: command where
  "shout = \<lparr>fname = ''shout'',
            body = (\<lambda>args. Returned (Some ''HEY'')),
            command_names = [''shout'', ''say''], restrict = None\<rparr>"

text \<open>Three event handlers for the type \<^verbatim>\<open>msg\<close>: one answers, one raises, one returns nothing.\<close>

definition greet :: event where
  "greet = \<lparr>fname = ''greet'', body = (\<lambda>args. Returned (Some ''hi'')), event_type = ''msg''\<rparr>"

definition broken :: event where
  "broken = \<lparr>fname = ''broken'', body = (\<lambda>args. Raised ''boom''), event_type = ''msg''\<rparr>"

definition quiet :: event where
  "quiet = \<lparr>fname = ''quiet'', body = (\<lambda>args. Returned None), event_type = ''msg''\<rparr>"

text \<open>A bot named \<^verbatim>\<open>chii\<close> with prefix \<^verbatim>\<open>.\<close>, the three commands loaded and one admin.\<close>

definition example_bot :: chii where
  "example_bot =
     \<lparr>commands = [''sheen'' \<mapsto> sheen, ''say'' \<mapsto> say, ''rehash'' \<mapsto> rehash],
      events = Map.empty, tasks = [], nickname = ''chii'',
      user_roles = [''admin'' \<mapsto> [''zk!is@whatit.is'']],
      cmd_prefix = ''.'', modules = [''commands'']\<rparr>"


text \<open>
  The two plugin modules as namespaces, a directory \<^verbatim>\<open>commands\<close> that holds them, and a
  state of the disk in which \<^verbatim>\<open>builtin.py\<close> no longer compiles.
\<close>

definition builtin_module :: namespace where
  "builtin_module =
     [(''command'', None), (''rehash'', Some (Command rehash)), (''say'', Some (Command say)),
      (''op'', None), (''deop'', None), (''voice'', None), (''devoice'', None)]"

definition misc_module :: namespace where
  "misc_module =
     [(''json'', None), (''random'', None), (''urllib'', None), (''urllib2'', None),
      (''config'', None), (''command'', None), (''IMGUR_API_KEY'', None),
      (''get_random'', None), (''sheen'', Some (Command sheen))]"

definition example_world :: world where
  "example_world =
     \<lparr>abspath = (\<lambda>p. ''/home/chii/'' @ p),
      listdir = (\<lambda>p. if p = ''/home/chii/commands''
                      then Some [''__init__.py'', ''builtin.py'', ''misc.py'', ''misc.pyc'']
                      else None),
      source_of = (\<lambda>path. if path = ''commands.misc'' then Defines misc_module
                           else Broken ''invalid syntax'')\<rparr>"

definition loaded_modules :: sys_modules where
  "loaded_modules = [''commands.builtin'' \<mapsto> builtin_module, ''commands.misc'' \<mapsto> misc_module]"

section \<open>Auxiliary facts\<close>

lemma calls_simps [simp]:
  "calls [] = []"
  "calls (Call f args # out) = (f, args) # calls out"
  "calls (Msg t x # out) = calls out"
  "calls (Log l # out) = calls out"
  "calls (Print l # out) = calls out"
  "calls (Listing l # out) = calls out"
  "calls (Traceback # out) = calls out"
  "calls (xs @ ys) = calls xs @ calls ys"
  by (simp_all add: calls_def)

lemma sent_simps [simp]:
  "sent [] = []"
  "sent (Call f args # out) = sent out"
  "sent (Msg t x # out) = (t, x) # sent out"
  "sent (Log l # out) = sent out"
  "sent (Print l # out) = sent out"
  "sent (Listing l # out) = sent out"
  "sent (Traceback # out) = sent out"
  "sent (xs @ ys) = sent xs @ sent ys"
  by (simp_all add: sent_def)

lemma logged_simps [simp]:
  "logged [] = []"
  "logged (Call f args # out) = logged out"
  "logged (Msg t x # out) = logged out"
  "logged (Log l # out) = l # logged out"
  "logged (Print l # out) = logged out"
  "logged (Listing l # out) = logged out"
  "logged (Traceback # out) = logged out"
  "logged (xs @ ys) = logged xs @ logged ys"
  by (simp_all add: logged_def)

lemma call_handler_trace [simp]:
  "calls (snd (call_handler h args)) = [(fname h, args)]"
  "sent (snd (call_handler h args)) = []"
  "logged (snd (call_handler h args)) = []"
  by (simp_all add: call_handler_def split: outcome.splits)


lemma diagnostic_nonempty [simp]: "diagnostic e \<noteq> []"
  by (simp add: diagnostic_def)

text \<open>The fields of the examples, so that evaluation need not open the handler bodies.\<close>

lemma example_fields [simp]:
  "fname sheen = ''sheen''" "command_names sheen = [''sheen'']" "restrict sheen = None"
  "fname say = ''say''" "command_names say = [''say'']" "restrict say = None"
  "fname rehash = ''rehash''" "command_names rehash = [''rehash'']" "restrict rehash = Some ''admin''"
  "fname shout = ''shout''" "command_names shout = [''shout'', ''say'']" "restrict shout = None"
  "fname greet = ''greet''" "fname broken = ''broken''" "fname quiet = ''quiet''"
  by (simp_all add: sheen_def say_def rehash_def shout_def greet_def broken_def quiet_def)

lemma example_bodies [simp]:
  "body sheen (nick # host # channel # rest) =
     Returned (Some (''I GOT TIGER BLOOD IN ME '' @ map upper_char nick))"
  "body say args = Raised ''ChiiBot instance has no attribute chii''"
  "body rehash args = Raised ''ChiiBot instance has no attribute update_registry''"
  "body shout args = Returned (Some ''HEY'')"
  "body greet args = Returned (Some ''hi'')"
  "body broken args = Raised ''boom''"
  "body quiet args = Returned None"
  by (simp_all add: sheen_def say_def rehash_def shout_def greet_def broken_def quiet_def)

lemma example_bot_fields [simp]:
  "commands example_bot = [''sheen'' \<mapsto> sheen, ''say'' \<mapsto> say, ''rehash'' \<mapsto> rehash]"
  "events example_bot = Map.empty"
  "tasks example_bot = []"
  "nickname example_bot = ''chii''"
  "user_roles example_bot = [''admin'' \<mapsto> [''zk!is@whatit.is'']]"
  "cmd_prefix example_bot = ''.''"
  "modules example_bot = [''commands'']"
  by (simp_all add: example_bot_def)

text \<open>
  \<open>split_ws\<close> read as Python words it: skip the leading whitespace, cut the token at the
  next whitespace, go on behind it.
\<close>

lemma split_ws_unfold:
  "split_ws s =
     (let s' = dropWhile is_space s
      in if s' = [] then []
         else takeWhile (\<lambda>c. \<not> is_space c) s' # split_ws (dropWhile (\<lambda>c. \<not> is_space c) s'))"
proof (induction s)
  case Nil
  show ?case by simp
next
  case (Cons c cs)
  show ?case
  proof (cases "is_space c")
    case True
    with Cons show ?thesis by simp
  next
    case False
    note token = this
    show ?thesis
    proof (cases "cs = [] \<or> is_space (hd cs)")
      case True
      then have "takeWhile (\<lambda>c. \<not> is_space c) cs = []"
        by (cases cs) auto
      moreover from True have "dropWhile (\<lambda>c. \<not> is_space c) cs = cs"
        by (cases cs) auto
      ultimately show ?thesis using token True by (simp add: Let_def)
    next
      case False
      then obtain d ds where cs: "cs = d # ds" and d: "\<not> is_space d"
        by (cases cs) auto
      from Cons cs d
      have "split_ws cs =
              takeWhile (\<lambda>c. \<not> is_space c) cs # split_ws (dropWhile (\<lambda>c. \<not> is_space c) cs)"
        by (simp add: Let_def)
      with token False show ?thesis by (simp add: Let_def)
    qed
  qed
qed

lemma chii_globals_check_permission: "chii_globals ''check_permission'' = None"
  by (simp add: chii_globals_def)

lemmas string_defs = is_space_def lower_def lower_char_def upper_char_def startswith_def

section \<open>Properties of the permission check\<close>

text \<open>
  Claim C9. The permission check is a function of (role, nick, host) and the role table alone;
  it returns true when the role is none, and for a role that the role table holds it returns
  true exactly when nick, host or the composite \<^verbatim>\<open>nick!host\<close> is among the role's members.
\<close>

theorem check_permission_spec:
  "check_permission rt None nick host = Inr True \<and>
   (rt role = Some members \<longrightarrow>
      check_permission rt (Some role) nick host =
        Inr (nick \<in> set members \<or> host \<in> set members \<or> nick @ ''!'' @ host \<in> set members))"
  by (simp add: check_permission_def)

theorem check_permission_spec_witness:
  "check_permission default_user_roles None ''zk'' ''is@whatit.is'' = Inr True \<and>
   default_user_roles ''admins'' = Some [''zk!is@whatit.is''] \<and>
   check_permission default_user_roles (Some ''admins'') ''zk'' ''is@whatit.is'' = Inr True \<and>
   check_permission default_user_roles (Some ''admins'') ''jb'' ''old@example'' = Inr False"
  using check_permission_spec [of default_user_roles "''zk''" "''is@whatit.is''" "''admins''" "[''zk!is@whatit.is'']"]
        check_permission_spec [of default_user_roles "''jb''" "''old@example''" "''admins''" "[''zk!is@whatit.is'']"]
  by (simp add: default_user_roles_def)

text \<open>
  Claim C2, as stated: for a role name that the role table does not hold the check returns
  false and raises nothing. The default role table holds \<^verbatim>\<open>admins\<close>; the built-in commands
  are restricted to \<^verbatim>\<open>admin\<close>. For that role the check does not return false.
\<close>

theorem check_permission_unknown_role_counterexample:
  "default_user_roles ''admin'' = None \<and>
   check_permission default_user_roles (Some ''admin'') ''zk'' ''is@whatit.is'' \<noteq> Inr False"
  by (simp add: default_user_roles_def check_permission_def)

text \<open>
  Claim C2, amended: for every nick and host, the permission check called with a role name
  that the role table does not hold returns neither true nor false: indexing the role table
  raises KeyError for that name.
\<close>

theorem check_permission_unknown_role:
  "rt role = None \<Longrightarrow> check_permission rt (Some role) nick host = Inl (KeyError role)"
  by (simp add: check_permission_def)

theorem check_permission_unknown_role_witness:
  "default_user_roles ''admin'' = None \<and>
   check_permission default_user_roles (Some ''admin'') ''zk'' ''is@whatit.is'' = Inl (KeyError ''admin'')"
proof -
  have unknown: "default_user_roles ''admin'' = None"
    by (simp add: default_user_roles_def)
  from check_permission_unknown_role [of default_user_roles "''admin''" "''zk''" "''is@whatit.is''"] unknown
  show ?thesis
    by simp
qed

section \<open>Properties of the event dispatcher\<close>

lemma respond_to_trace [simp]:
  "calls (respond_to self respond response) = []"
  "logged (respond_to self respond response) =
     map (\<lambda>(t, text). ''<'' @ nickname self @ ''> '' @ text) (sent (respond_to self respond response))"
  "sent (respond_to self None response) = []"
  by (simp_all add: respond_to_def log_line_def split: option.splits)




lemma event_loop_logged:
  "logged (event_loop self respond args evs) =
     map (\<lambda>(t, text). ''<'' @ nickname self @ ''> '' @ text) (sent (event_loop self respond args evs))"
  by (induction evs) (simp_all add: split_def Let_def)

lemma event_loop_silent: "sent (event_loop self None args evs) = []"
  by (induction evs) (simp_all add: split_def Let_def)

lemma handle_event_loop:
  "events self etype = Some evs \<Longrightarrow>
   snd (handle_event self etype respond args) = event_loop self respond args evs"
  by (simp add: handle_event_def dd_get_def split: list.splits)

lemma handle_event_without_target:
  "sent (snd (handle_event self etype None args)) = [] \<and>
   logged (snd (handle_event self etype None args)) = []"
proof (cases "events self etype")
  case None
  then show ?thesis by (simp add: handle_event_def dd_get_def)
next
  case (Some evs)
  then show ?thesis by (simp add: handle_event_loop event_loop_silent event_loop_logged)
qed



section \<open>Properties of the command router\<close>

text \<open>
  What \<^verbatim>\<open>_handle_command\<close> does with a known key depends on the global name
  \<^verbatim>\<open>check_permission\<close> alone. Unbound, as in \<^verbatim>\<open>chii.py\<close>, every known command ends
  in NameError before the permission is evaluated and before the handler is called.
\<close>

lemma handle_command_unknown_key:
  "parse_command msg = Inr (key, args) \<Longrightarrow> commands self key = None \<Longrightarrow>
   handle_command g self nick host channel msg = (None, self, [])"
  by (simp add: handle_command_def)

lemma handle_command_unbound:
  "parse_command msg = Inr (key, args) \<Longrightarrow> commands self key = Some command \<Longrightarrow>
   handle_command chii_globals self nick host channel msg =
     (Some (NameError ''check_permission''), self, [])"
  by (simp add: handle_command_def chii_globals_check_permission)

text \<open>
  The block behind the permission test, for any callable the name could be bound to: a
  denial is as silent as an unknown key; a grant calls the handler once with
  \<^verbatim>\<open>(nick, host, channel, *args)\<close> and routes its response.
\<close>

lemma handle_command_denied:
  "g ''check_permission'' = Some (Callable permitted) \<Longrightarrow>
   parse_command msg = Inr (key, args) \<Longrightarrow> commands self key = Some command \<Longrightarrow>
   permitted (restrict command) nick host = Inr False \<Longrightarrow>
   handle_command g self nick host channel msg = (None, self, [])"
  by (simp add: handle_command_def)

lemma handle_command_granted:
  "g ''check_permission'' = Some (Callable permitted) \<Longrightarrow>
   parse_command msg = Inr (key, args) \<Longrightarrow> commands self key = Some command \<Longrightarrow>
   permitted (restrict command) nick host = Inr True \<Longrightarrow>
   handle_command g self nick host channel msg =
     (None, self,
      snd (call_handler command (nick # host # channel # args)) @
      reply self nick channel (fst (call_handler command (nick # host # channel # args))))"
  by (simp add: handle_command_def split_def Let_def)

lemma reply_routing:
  "text \<noteq> [] \<Longrightarrow>
   reply self nick channel (Some text) =
     [Msg (if channel = nickname self then nick else channel) text,
      Log (''<'' @ nickname self @ ''> '' @ text)]"
  by (simp add: reply_def log_line_def)

lemma reply_nothing:
  "reply self nick channel None = [] \<and> reply self nick channel (Some []) = []"
  by (simp add: reply_def)

lemma parse_dot_sheen: "parse_command ''.sheen'' = Inr (''sheen'', [])"
  by (simp add: parse_command_def string_defs)

lemma parse_dot_rehash: "parse_command ''.rehash'' = Inr (''rehash'', [])"
  by (simp add: parse_command_def string_defs)

lemma parse_dot_say: "parse_command ''.say hello world'' = Inr (''say'', [''hello'', ''world''])"
  by (simp add: parse_command_def string_defs)

lemma parse_dot_nosuch: "parse_command ''.nosuch'' = Inr (''nosuch'', [])"
  by (simp add: parse_command_def string_defs)

text \<open>
  Claim C1 fails on the code. The bot holds the unrestricted command \<^verbatim>\<open>sheen\<close> and the
  command \<^verbatim>\<open>rehash\<close> restricted to \<^verbatim>\<open>admin\<close>, whose only member is
  \<^verbatim>\<open>zk!is@whatit.is\<close>. An unrestricted command, a restricted command sent by the admin and
  a restricted command sent by a stranger all raise NameError without one handler call; only
  the unknown key is a silent no-op.
\<close>

theorem known_command_never_invoked:
  "handle_command chii_globals example_bot ''zk'' ''is@whatit.is'' ''#chiisadventure'' ''.sheen'' =
     (Some (NameError ''check_permission''), example_bot, []) \<and>
   check_permission (user_roles example_bot) (restrict rehash) ''zk'' ''is@whatit.is'' = Inr True \<and>
   handle_command chii_globals example_bot ''zk'' ''is@whatit.is'' ''#chiisadventure'' ''.rehash'' =
     (Some (NameError ''check_permission''), example_bot, []) \<and>
   check_permission (user_roles example_bot) (restrict rehash) ''mallory'' ''evil@example.org'' = Inr False \<and>
   handle_command chii_globals example_bot ''mallory'' ''evil@example.org'' ''#chiisadventure'' ''.rehash'' =
     (Some (NameError ''check_permission''), example_bot, []) \<and>
   handle_command chii_globals example_bot ''mallory'' ''evil@example.org'' ''#chiisadventure'' ''.nosuch'' =
     (None, example_bot, [])"
  by (simp add: handle_command_unbound [OF parse_dot_sheen] handle_command_unbound [OF parse_dot_rehash]
                handle_command_unknown_key [OF parse_dot_nosuch] check_permission_def)

text \<open>
  Claim C4 fails on the code. The body of \<^verbatim>\<open>say\<close> raises. Sent as \<^verbatim>\<open>.say hello world\<close>
  to a channel, the message is logged, then NameError leaves \<^verbatim>\<open>_handle_command\<close> and
  \<^verbatim>\<open>privmsg\<close>: the handler is not called, no diagnostic reply is sent.
\<close>

theorem raising_command_not_contained:
  "body say [''zk'', ''is@whatit.is'', ''#chiisadventure'', ''hello'', ''world''] =
     Raised ''ChiiBot instance has no attribute chii'' \<and>
   privmsg chii_globals example_bot ''zk!is@whatit.is'' ''#chiisadventure'' ''.say hello world'' =
     (Some (NameError ''check_permission''), example_bot, [Log ''<zk> .say hello world''])"
  by (simp add: privmsg_def handle_event_def dd_get_def startswith_def
                handle_command_unbound [OF parse_dot_say])

text \<open>
  Claim C8 fails on the code. \<^verbatim>\<open>sheen\<close> returns a non-empty line for \<^verbatim>\<open>zk\<close>. Sent in
  private (the target is the bot's nickname) or to a channel, the command produces no
  message and no log line.
\<close>

theorem reply_never_sent:
  "body sheen [''zk'', ''is@whatit.is'', ''chii''] = Returned (Some ''I GOT TIGER BLOOD IN ME ZK'') \<and>
   nickname example_bot = ''chii'' \<and>
   sent (snd (snd (handle_command chii_globals example_bot ''zk'' ''is@whatit.is'' ''chii'' ''.sheen''))) = [] \<and>
   logged (snd (snd (handle_command chii_globals example_bot ''zk'' ''is@whatit.is'' ''chii'' ''.sheen''))) = [] \<and>
   sent (snd (snd (handle_command chii_globals example_bot ''zk'' ''is@whatit.is'' ''#chiisadventure'' ''.sheen''))) = [] \<and>
   logged (snd (snd (handle_command chii_globals example_bot ''zk'' ''is@whatit.is'' ''#chiisadventure'' ''.sheen''))) = []"
  by (simp add: handle_command_unbound [OF parse_dot_sheen] upper_char_def)

section \<open>Properties of the parse\<close>

lemma split_ws_cons_nonspace:
  assumes "\<not> is_space p" and "rest \<noteq> []" and "\<not> is_space (hd rest)"
  shows "\<exists>tok toks. split_ws rest = tok # toks \<and> split_ws (p # rest) = (p # tok) # toks"
proof -
  from assms obtain d ds where rest: "rest = d # ds" and d: "\<not> is_space d"
    by (cases rest) auto
  have "split_ws rest \<noteq> []"
    unfolding rest using d by (auto split: list.splits)
  then obtain tok toks where "split_ws rest = tok # toks"
    by (cases "split_ws rest") auto
  with assms show ?thesis by simp
qed

text \<open>
  Claim C6, as stated, has the router strip the prefix and then split. The router splits
  first and then drops one character of the first token. For the prefix \<^verbatim>\<open>.\<close> and the text
  \<^verbatim>\<open>. say hello\<close>, which begins with the prefix, the two differ: the router's key is
  the empty string.
\<close>

theorem parse_command_counterexample:
  "startswith ''. say hello'' ''.'' \<and>
   parse_command ''. say hello'' = Inr ('''', [''say'', ''hello'']) \<and>
   spec_parse ''.'' ''. say hello'' = Some (''say'', [''hello''])"
  by (simp add: parse_command_def spec_parse_def string_defs)

text \<open>
  Claim C6, amended: for every text that begins with a command prefix of one character that
  is not whitespace, directly followed by a character that is not whitespace, the router's
  parse (split on whitespace, drop the first character of the first token, lower-case it)
  gives the lookup key and the remaining tokens that stripping the prefix and then splitting
  gives; in particular \<^verbatim>\<open>.say hello world\<close> gives the key \<^verbatim>\<open>say\<close> and the remaining
  tokens \<^verbatim>\<open>hello\<close>, \<^verbatim>\<open>world\<close>.
\<close>

theorem parse_command_single_char_prefix:
  assumes "\<not> is_space p" and "rest \<noteq> []" and "\<not> is_space (hd rest)"
  shows "Some (parse_command (p # rest)) = map_option Inr (spec_parse [p] (p # rest))"
proof -
  from split_ws_cons_nonspace [OF assms]
  obtain tok toks where "split_ws rest = tok # toks" and "split_ws (p # rest) = (p # tok) # toks"
    by blast
  then show ?thesis
    by (simp add: parse_command_def spec_parse_def)
qed

theorem parse_command_single_char_prefix_witness:
  "\<not> is_space CHR ''.'' \<and> ''say hello world'' \<noteq> [] \<and> \<not> is_space (hd ''say hello world'') \<and>
   spec_parse ''.'' ''.say hello world'' = Some (''say'', [''hello'', ''world'']) \<and>
   parse_command ''.say hello world'' = Inr (''say'', [''hello'', ''world''])"
proof -
  have prefix: "\<not> is_space CHR ''.''" and rest: "''say hello world'' \<noteq> []"
    and follows: "\<not> is_space (hd ''say hello world'')"
    by (simp_all add: is_space_def)
  have spec: "spec_parse ''.'' ''.say hello world'' = Some (''say'', [''hello'', ''world''])"
    by (simp add: spec_parse_def string_defs)
  from parse_command_single_char_prefix [OF prefix rest follows] spec
  have "parse_command ''.say hello world'' = Inr (''say'', [''hello'', ''world''])"
    by simp
  with prefix rest follows spec show ?thesis
    by simp
qed

section \<open>Properties of the registry loader\<close>

lemma add_command_names_commands:
  "commands (fst (add_command_names method names self)) name =
     (if name \<in> set names then Some method else commands self name)"
  by (induction names arbitrary: self) (auto simp: split_def Let_def)

lemma add_command_names_warns:
  "name \<in> set names \<Longrightarrow> name \<in> dom (commands self) \<Longrightarrow>
   collision_warning name \<in> set (snd (add_command_names method names self))"
proof (induction names arbitrary: self)
  case Nil
  then show ?case by simp
next
  case (Cons a names)
  show ?case
  proof (cases "a = name")
    case True
    with Cons.prems show ?thesis by (simp add: split_def Let_def)
  next
    case False
    with Cons.prems have "name \<in> set names" by simp
    moreover from Cons.prems
    have "name \<in> dom (commands (self\<lparr>commands := (commands self)(a \<mapsto> method)\<rparr>))" by simp
    ultimately have "collision_warning name \<in> set (snd (add_command_names method names
        (self\<lparr>commands := (commands self)(a \<mapsto> method)\<rparr>)))"
      by (rule Cons.IH)
    then show ?thesis by (simp add: split_def Let_def)
  qed
qed

lemma add_command_names_only_prints:
  "e \<in> set (snd (add_command_names method names self)) \<Longrightarrow> \<exists>name. e = collision_warning name"
  by (induction names arbitrary: self) (auto simp: split_def Let_def split: if_splits)

text \<open>
  Claim C7. Registering a command under an alias that the command table already holds puts
  the new handler in the place of the old one and prints the warning for that alias.
  \<^verbatim>\<open>add_command\<close> has no failing step, so it always returns the new table: nothing is
  raised.
\<close>

theorem add_command_collision:
  assumes "name \<in> set (command_names method)" and "commands self name = Some old"
  shows "commands (fst (add_command method self)) name = Some method \<and>
         collision_warning name \<in> set (snd (add_command method self))"
  using assms
  by (auto simp: add_command_def add_command_names_commands intro!: add_command_names_warns)

theorem add_command_collision_witness:
  "''say'' \<in> set (command_names shout) \<and> commands example_bot ''say'' = Some say \<and>
   commands (fst (add_command shout example_bot)) ''say'' = Some shout \<and>
   Print ''Warning! commands registry already contains say'' \<in> set (snd (add_command shout example_bot))"
proof -
  have named: "''say'' \<in> set (command_names shout)" and held: "commands example_bot ''say'' = Some say"
    by simp_all
  from add_command_collision [OF named held] named held show ?thesis
    by (simp add: collision_warning_def)
qed

text \<open>
  The two paths of \<^verbatim>\<open>_import_module\<close> for a module whose source raises: the first
  import is inside the \<^verbatim>\<open>try\<close> and returns \<^verbatim>\<open>None\<close>; the \<^verbatim>\<open>reload\<close> of a module
  that is already loaded is outside it and the exception leaves the method.
\<close>

lemma import_module_first_import_isolated:
  "sm (package @ ''.'' @ module) = None \<Longrightarrow>
   source_of w (package @ ''.'' @ module) = Broken e \<Longrightarrow>
   import_module w sm package module =
     (Inr None, sm,
      [Print (''Importing '' @ package @ ''.'' @ module),
       Print (''Error importing '' @ package @ ''.'' @ module @ '': '' @ e), Traceback])"
  by (simp add: import_module_def Let_def)

lemma import_module_reload_raises:
  "sm (package @ ''.'' @ module) = Some old \<Longrightarrow>
   source_of w (package @ ''.'' @ module) = Broken e \<Longrightarrow>
   fst (import_module w sm package module) = Inl (ImportFault e)"
  by (simp add: import_module_def Let_def)

lemma load_modules_first_import_continues:
  "sm (package @ ''.'' @ module) = None \<Longrightarrow>
   source_of w (package @ ''.'' @ module) = Broken e \<Longrightarrow>
   load_modules w package (module # rest) self sm =
     (let (err, self2, sm2, out2) = load_modules w package rest self sm
      in (err, self2, sm2,
          [Print (''Importing '' @ package @ ''.'' @ module),
           Print (''Error importing '' @ package @ ''.'' @ module @ '': '' @ e), Traceback] @ out2))"
  by (simp add: import_module_first_import_isolated)

lemma load_modules_reload_aborts:
  "sm (package @ ''.'' @ module) = Some old \<Longrightarrow>
   source_of w (package @ ''.'' @ module) = Broken e \<Longrightarrow>
   fst (load_modules w package (module # rest) self sm) = Some (ImportFault e) \<and>
   fst (snd (load_modules w package (module # rest) self sm)) = self"
  by (simp add: import_module_def Let_def)

text \<open>
  The first half of claim C5 holds: after the attributes are deleted and the source is
  executed again, what the module registers is what the new source defines, whatever the
  module held before.
\<close>

lemma map_filter_filter:
  "(\<And>x. \<not> P x \<Longrightarrow> g x = None) \<Longrightarrow> List.map_filter g (filter P xs) = List.map_filter g xs"
  by (induction xs) (auto simp: List.map_filter_simps split: option.splits)

lemma map_filter_agree:
  "(\<And>x. x \<in> set xs \<Longrightarrow> f x = g x) \<Longrightarrow> List.map_filter f xs = List.map_filter g xs"
  by (induction xs) (auto simp: List.map_filter_simps split: option.splits)

lemma public_dir_names:
  "filter (\<lambda>x. \<not> startswith x ''_'') (dir_names m) =
     sort (remdups (filter (\<lambda>x. \<not> startswith x ''_'') (map fst m)))"
  by (simp add: dir_names_def filter_sort remdups_filter)

lemma registered_cong:
  assumes keys: "set (map fst m1) - {x. startswith x ''_''} = set (map fst m2) - {x. startswith x ''_''}"
    and vals: "\<And>x. \<not> startswith x ''_'' \<Longrightarrow> map_of m1 x = map_of m2 x"
  shows "registered m1 = registered m2"
proof -
  let ?P = "\<lambda>x. \<not> startswith x ''_''"
  have hidden: "registered_attr m x = None" if "\<not> ?P x" for m x
    using that by (simp add: registered_attr_def)
  from keys have "set (filter ?P (map fst m1)) = set (filter ?P (map fst m2))"
    by auto
  then have "sort (remdups (filter ?P (map fst m1))) = sort (remdups (filter ?P (map fst m2)))"
    by (intro sorted_distinct_set_unique) simp_all
  then have names: "filter ?P (dir_names m1) = filter ?P (dir_names m2)"
    by (simp only: public_dir_names)
  have "registered m1 = List.map_filter (registered_attr m1) (filter ?P (dir_names m1))"
    by (simp add: registered_def map_filter_filter [OF hidden])
  also have "\<dots> = List.map_filter (registered_attr m2) (filter ?P (dir_names m1))"
    by (rule map_filter_agree) (simp add: registered_attr_def vals)
  also have "\<dots> = registered m2"
    by (simp add: names registered_def map_filter_filter [OF hidden])
  finally show ?thesis .
qed

lemma registered_after_reload:
  "registered (exec_in (filter (\<lambda>(a, v). a = ''__name__'') old) new) = registered new"
proof (rule registered_cong)
  let ?cleared = "filter (\<lambda>(a, v). a = ''__name__'') old"
  have dunder: "startswith ''__name__'' ''_''"
    by (simp add: startswith_def)
  have keys: "fst ` set ?cleared \<subseteq> {''__name__''}"
    by auto
  show "set (map fst (exec_in ?cleared new)) - {x. startswith x ''_''} =
        set (map fst new) - {x. startswith x ''_''}"
    using dunder by (auto simp: exec_in_def)
  show "map_of (exec_in ?cleared new) x = map_of new x" if "\<not> startswith x ''_''" for x
  proof -
    from that dunder have "x \<noteq> ''__name__''" by auto
    then have "map_of (filter (\<lambda>(a, v). a \<notin> set (map fst new)) ?cleared) x = None"
      by (auto simp: map_of_eq_None_iff)
    then show ?thesis
      by (simp add: exec_in_def map_add_def split: option.splits)
  qed
qed

lemma import_module_reload_discards:
  "sm (package @ ''.'' @ module) = Some old \<Longrightarrow>
   source_of w (package @ ''.'' @ module) = Defines new \<Longrightarrow>
   \<exists>mdl. fst (import_module w sm package module) = Inr (Some mdl) \<and> registered mdl = registered new"
  by (simp add: import_module_def Let_def registered_after_reload)

lemma example_world_fields [simp]:
  "abspath example_world p = ''/home/chii/'' @ p"
  "listdir example_world ''/home/chii/commands'' =
     Some [''__init__.py'', ''builtin.py'', ''misc.py'', ''misc.pyc'']"
  "source_of example_world ''commands.builtin'' = Broken ''invalid syntax''"
  "source_of example_world ''commands.misc'' = Defines misc_module"
  by (simp_all add: example_world_def)

lemma example_module_files:
  "module_files [''__init__.py'', ''builtin.py'', ''misc.py'', ''misc.pyc''] = [''builtin'', ''misc'']"
  by (simp add: module_files_def endswith_def)

lemma example_package: "basename ''/home/chii/commands'' = ''commands''"
  by (simp add: basename_def)

lemma registered_misc_module: "registered misc_module = [Command sheen]"
  by (simp add: registered_def registered_attr_def dir_names_def misc_module_def startswith_def
                List.map_filter_simps)

lemma add_to_registry_misc_module:
  "commands self ''sheen'' = None \<Longrightarrow>
   add_to_registry misc_module self = (self\<lparr>commands := (commands self)(''sheen'' \<mapsto> sheen)\<rparr>, [])"
  by (simp add: add_to_registry_def registered_misc_module add_command_def domIff)

text \<open>
  Claim C5 fails on the code in its second half. Both plugin modules are loaded, then
  \<^verbatim>\<open>builtin.py\<close> is broken on disk and the registry is rebuilt: the \<^verbatim>\<open>reload\<close> of
  \<^verbatim>\<open>commands.builtin\<close> raises out of \<^verbatim>\<open>_update_registry\<close>, \<^verbatim>\<open>commands.misc\<close> is
  never reached and the command table stays empty. With the same disk and nothing loaded
  yet, the failure is printed and \<^verbatim>\<open>commands.misc\<close> is loaded all the same.
\<close>

theorem reload_of_broken_module_aborts:
  "fst (update_registry example_world example_bot loaded_modules) = Some (ImportFault ''invalid syntax'') \<and>
   commands (fst (snd (update_registry example_world example_bot loaded_modules))) = Map.empty \<and>
   snd (snd (snd (update_registry example_world example_bot loaded_modules))) =
     [Print ''Reloading commands.builtin''] \<and>
   fst (update_registry example_world example_bot Map.empty) = None \<and>
   commands (fst (snd (update_registry example_world example_bot Map.empty))) = [''sheen'' \<mapsto> sheen] \<and>
   snd (snd (snd (update_registry example_world example_bot Map.empty))) =
     [Print ''Importing commands.builtin'',
      Print ''Error importing commands.builtin: invalid syntax'', Traceback,
      Print ''Importing commands.misc'',
      Listing ''commands'', Listing ''events'', Listing ''tasks'']"
  by (simp add: update_registry_def example_module_files example_package import_module_def
                loaded_modules_def add_to_registry_misc_module Let_def)

section \<open>Dispatch and the registries\<close>

lemma handle_event_state: "fst (handle_event self etype respond args) = self"
  by (simp add: handle_event_def split: option.splits list.splits)

lemma handle_command_state: "fst (snd (handle_command g self nick host channel msg)) = self"
  by (simp add: handle_command_def split_def Let_def split: option.splits sum.splits pyval.splits)

lemma privmsg_state: "fst (snd (privmsg g self user channel msg)) = self"
  by (simp add: privmsg_def split_def Let_def handle_event_state handle_command_state split: list.splits)

text \<open>
  Claim C10. Event dispatch and command routing return the bot with the command table, the
  event table and the task list they were given, for every input and whatever the global
  name \<^verbatim>\<open>check_permission\<close> is bound to. For an event type without an entry the dispatch
  calls no handler and the event table still has no entry for that type. (The statement is
  about the code of the dispatcher: a handler body is modelled by what it returns or raises.)
\<close>

theorem dispatch_keeps_registries:
  "commands (fst (handle_event self etype respond args)) = commands self \<and>
   events (fst (handle_event self etype respond args)) = events self \<and>
   tasks (fst (handle_event self etype respond args)) = tasks self \<and>
   commands (fst (snd (handle_command g self nick host channel msg))) = commands self \<and>
   events (fst (snd (handle_command g self nick host channel msg))) = events self \<and>
   tasks (fst (snd (handle_command g self nick host channel msg))) = tasks self \<and>
   (events self etype = None \<longrightarrow>
      calls (snd (handle_event self etype respond args)) = [] \<and>
      events (fst (handle_event self etype respond args)) etype = None)"
  by (simp add: handle_event_state handle_command_state) (simp add: handle_event_def dd_get_def)

theorem dispatch_keeps_registries_witness:
  "events example_bot ''load'' = None \<and>
   calls (snd (handle_event example_bot ''load'' None [])) = [] \<and>
   events (fst (handle_event example_bot ''load'' None [])) ''load'' = None \<and>
   commands (fst (handle_event example_bot ''load'' None [])) = commands example_bot \<and>
   commands (fst (snd (handle_command chii_globals example_bot ''zk'' ''is@whatit.is'' ''chii'' ''.sheen''))) =
     commands example_bot"
proof -
  have absent: "events example_bot ''load'' = None"
    by simp
  from dispatch_keeps_registries [where self = example_bot and etype = "''load''" and respond = None
         and args = "[]" and g = chii_globals and nick = "''zk''" and host = "''is@whatit.is''"
         and channel = "''chii''" and msg = "''.sheen''"] absent
  show ?thesis
    by simp
qed

end
